theory Spec2Isabelle
  imports Main "HOL-Library.Sublist"
begin

section \<open>The add-on controller of assets/product-addon.js\<close>

text \<open>
  The class \<open>ProductAddon\<close> is a page-wide singleton with four fields. Its methods read
  the document (checked add-on checkboxes, cart-count elements), write to it (an error
  banner), talk to the network (\<open>fetch\<close>) and set timers. The embedding threads one
  record through every method: the four fields, the part of the document the methods
  read or write, and logs of what the methods send out.

  \<open>handleCartAdd\<close> is an \<open>async\<close> function. It runs to its first \<open>await\<close> inside the
  caller, and is resumed later when the awaited promise settles. Each stretch between
  two suspension points is one HOL function; the handling that is suspended, with the
  local variable it still needs, is a \<open>task\<close> kept in the record. \<open>console\<close> output is
  not modelled.
\<close>

subsection \<open>Data\<close>

text \<open>\<open>element.dataset\<close>, of which the three keys below are read (absent: \<open>undefined\<close>).\<close>

record dataset =
  addonProductId :: "string option"
  addonVariantId :: "string option"
  addonPrice :: "string option"

text \<open>
  The result of \<open>checkbox.closest('.product-addon')\<close>: an element, whose \<open>dataset\<close>
  property exists on every HTML element and is missing on a bare XML element.
\<close>

datatype container = Container (dataset: "dataset option")

datatype checkbox = Checkbox (closest: "container option")

text \<open>The object literal of lines 155--159.\<close>

record addon =
  productId :: "string option"
  variantId :: "string option"
  price :: "string option"

text \<open>
  A \<open>cart:update\<close> event is read through \<open>event.detail\<close>, \<open>detail.eventId\<close>,
  \<open>detail.data\<close> and three properties of the data. \<open>didError\<close> stands for the
  truthiness of that property.
\<close>

record cart_data =
  source :: "string option"
  didError :: bool
  dataProductId :: "string option"

record detail =
  eventId :: "string option"
  data :: "cart_data option"

type_synonym event = "detail option"

text \<open>One entry of the \<open>items\<close> array in the body of the append request.\<close>

datatype item = Item (item_id: "string option") (quantity: nat)

datatype request = Post string "item list" | Get string

text \<open>
  What a \<open>fetch\<close> settles to: the promise rejects, or there is a response with its
  \<open>ok\<close> flag and a body that \<open>response.json()\<close> parses (\<open>None\<close>: it rejects). Of the
  parsed body the code reads \<open>message\<close> and \<open>item_count\<close>.
\<close>

record body =
  message :: "string option"
  item_count :: "int option"

datatype response = NetworkError | Response (ok: bool) (json: "body option")

datatype error = TransportError | JsonError | Error string

text \<open>Events the controller dispatches on the document.\<close>

datatype emitted = CartUpdateEvent detail | PlainEvent string | CountUpdated "int option"

text \<open>The banner element of \<open>showErrorMessage\<close>; \<open>node\<close> is its object identity.\<close>

datatype banner = Banner (node: nat) (className: string) (textContent: string)

text \<open>The callbacks handed to \<open>setTimeout\<close>, other than the settle delay.\<close>

datatype timer_action = ClearProcessedEventIds | RemoveNotification nat

text \<open>
  A suspended run of \<open>handleCartAdd\<close>: at the settle delay of line 119 (holding
  \<open>addonsToAdd\<close>), at the \<open>fetch\<close> of \<open>addToCart\<close>, or at the \<open>fetch\<close> of
  \<open>updateCartCount\<close>.
\<close>

datatype task = AwaitSettle "addon list" | AwaitAppend | AwaitCart

record state =
  pendingAddons :: "addon list option"
  isProcessingAddons :: bool
  processedEventIds :: "string set"
  lastCartCountUpdate :: int
  checkedBoxes :: "checkbox list"
  cartCountElements :: "string list"
  bodyChildren :: "banner list"
  nextNode :: nat
  timers :: "(nat \<times> timer_action) list"
  requests :: "request list"
  dispatched :: "emitted list"
  tasks :: "task list"

text \<open>The constructor, on a page with the given checked boxes and count elements.\<close>

definition new_ProductAddon :: "checkbox list \<Rightarrow> string list \<Rightarrow> state" where
  "new_ProductAddon boxes counts =
     \<lparr>pendingAddons = None, isProcessingAddons = False, processedEventIds = {},
      lastCartCountUpdate = 0, checkedBoxes = boxes, cartCountElements = counts,
      bodyChildren = [], nextNode = 0, timers = [], requests = [], dispatched = [],
      tasks = []\<rparr>"

subsection \<open>Reading the selection\<close>

text \<open>JavaScript truthiness of an optional string: \<open>undefined\<close> and \<open>''\<close> are falsy.\<close>

definition truthy :: "string option \<Rightarrow> bool" where
  "truthy v = (case v of None \<Rightarrow> False | Some s \<Rightarrow> s \<noteq> [])"

text \<open>The callback of the \<open>map\<close> in \<open>getCheckedAddons\<close> (lines 152--162); \<open>None\<close> is \<open>null\<close>.\<close>

definition readAddon :: "checkbox \<Rightarrow> addon option" where
  "readAddon cb =
     (case closest cb of
        None \<Rightarrow> None
      | Some addonContainer \<Rightarrow>
          (case dataset addonContainer of
             None \<Rightarrow> None
           | Some d \<Rightarrow>
               Some \<lparr>productId = addonProductId d, variantId = addonVariantId d,
                     price = addonPrice d\<rparr>))"

definition getCheckedAddons :: "state \<Rightarrow> addon list" where
  "getCheckedAddons st =
     map the (filter (\<lambda>a. a \<noteq> None) (map readAddon (checkedBoxes st)))"

subsection \<open>The two listeners\<close>

definition handleFormSubmit :: "state \<Rightarrow> state" where
  "handleFormSubmit st =
     (let checkedAddons = getCheckedAddons st
      in if length checkedAddons = 0 then st
         else st\<lparr>pendingAddons := Some checkedAddons\<rparr>)"

text \<open>
  The target of a \<open>submit\<close> event: a form with its \<open>action\<close> attribute, or something
  else. The selector \<open>form[action*="/cart/add"]\<close> asks for a substring.
\<close>

datatype target = Form (action: "string option") | NotForm

definition targetsCartAdd :: "target \<Rightarrow> bool" where
  "targetsCartAdd t =
     (case t of
        NotForm \<Rightarrow> False
      | Form a \<Rightarrow> (case a of None \<Rightarrow> False | Some s \<Rightarrow> sublist ''/cart/add'' s))"

definition submitListener :: "target \<Rightarrow> state \<Rightarrow> state" where
  "submitListener t st = (if targetsCartAdd t then handleFormSubmit st else st)"

definition isAddToCartEvent :: "event \<Rightarrow> bool" where
  "isAddToCartEvent ev =
     (case ev of
        None \<Rightarrow> False
      | Some d \<Rightarrow>
          (case data d of
             None \<Rightarrow> False
           | Some dt \<Rightarrow>
               if source dt \<noteq> Some ''product-form-component'' then False
               else if didError dt then False
               else if \<not> truthy (dataProductId dt) then False
               else True))"

text \<open>The condition of line 82.\<close>

definition ownEvent :: "event \<Rightarrow> bool" where
  "ownEvent ev =
     (case ev of
        None \<Rightarrow> False
      | Some d \<Rightarrow>
          (case data d of
             None \<Rightarrow> False
           | Some dt \<Rightarrow> source dt = Some ''product-addon''))"

text \<open>\<open>event.detail.eventId\<close> when \<open>event.detail\<close> and it are truthy (lines 94, 95, 99).\<close>

definition eventKey :: "event \<Rightarrow> string option" where
  "eventKey ev =
     (case ev of
        None \<Rightarrow> None
      | Some d \<Rightarrow> (if truthy (eventId d) then eventId d else None))"

text \<open>
  Line 105, \<open>this.pendingAddons || this.getCheckedAddons()\<close>: an array is truthy even
  when it is empty, so only \<open>null\<close> falls through to the fresh read.
\<close>

definition addonsToAdd :: "state \<Rightarrow> addon list" where
  "addonsToAdd st = (case pendingAddons st of Some p \<Rightarrow> p | None \<Rightarrow> getCheckedAddons st)"

text \<open>
  Lines 105--119: resolve the add-ons, return when there are none, otherwise set the
  flag and suspend at the settle delay.
\<close>

definition enterCriticalSection :: "state \<Rightarrow> state" where
  "enterCriticalSection st =
     (if length (addonsToAdd st) = 0 then st
      else st\<lparr>isProcessingAddons := True, tasks := tasks st @ [AwaitSettle (addonsToAdd st)]\<rparr>)"

text \<open>\<open>handleCartAdd\<close> up to its first \<open>await\<close> (lines 78--119).\<close>

definition handleCartAdd :: "event \<Rightarrow> state \<Rightarrow> state" where
  "handleCartAdd ev st =
     (if ownEvent ev then st
      else if isProcessingAddons st then st
      else (case eventKey ev of
              None \<Rightarrow> enterCriticalSection st
            | Some e \<Rightarrow>
                if e \<in> processedEventIds st then st
                else enterCriticalSection
                       (st\<lparr>processedEventIds := insert e (processedEventIds st)\<rparr>)))"

text \<open>The \<open>cart:update\<close> listener of \<open>bindEvents\<close> (lines 21--26).\<close>

definition cartUpdateListener :: "event \<Rightarrow> state \<Rightarrow> state" where
  "cartUpdateListener ev st = (if isAddToCartEvent ev then handleCartAdd ev st else st)"

subsection \<open>The append request\<close>

text \<open>
  \<open>addToCart\<close> up to its \<open>fetch\<close>: the request goes out. The headers are constants and
  the body is \<open>{items: items}\<close>, so the request is modelled by its URL and items.
\<close>

definition addToCart :: "item list \<Rightarrow> state \<Rightarrow> state" where
  "addToCart items st = st\<lparr>requests := requests st @ [Post ''/cart/add.js'' items]\<rparr>"

text \<open>
  \<open>addToCart\<close> from the moment the \<open>fetch\<close> settles (lines 182--187): what it throws
  (\<open>Inl\<close>) or returns. The two awaits of \<open>fetch\<close> and \<open>response.json()\<close> are taken as
  one suspension; no field is written between them.
\<close>

definition addToCart_settled :: "response \<Rightarrow> error + body" where
  "addToCart_settled r =
     (case r of
        NetworkError \<Rightarrow> Inl TransportError
      | Response k b \<Rightarrow>
          if \<not> k then
            (case b of
               None \<Rightarrow> Inl JsonError
             | Some errorData \<Rightarrow>
                 Inl (Error (case message errorData of
                               None \<Rightarrow> ''Failed to add items to cart''
                             | Some m \<Rightarrow> if m = [] then ''Failed to add items to cart'' else m)))
          else (case b of None \<Rightarrow> Inl JsonError | Some cart \<Rightarrow> Inr cart))"

subsection \<open>The error banner and the timers\<close>

text \<open>
  \<open>showErrorMessage\<close>: a new element is appended to the body and a timer of 5000 ms is
  set to remove it. The inline style is presentation only and left out.
\<close>

definition showErrorMessage :: "string \<Rightarrow> state \<Rightarrow> state" where
  "showErrorMessage msg st =
     st\<lparr>bodyChildren := bodyChildren st @
          [Banner (nextNode st) ''product-addon-notification product-addon-notification--error'' msg],
        nextNode := Suc (nextNode st),
        timers := timers st @ [(5000, RemoveNotification (nextNode st))]\<rparr>"

text \<open>
  A pending timer fires: it leaves the timer list and its callback runs (lines 132--134
  and 307--311).
\<close>

definition fireTimer :: "nat \<Rightarrow> state \<Rightarrow> state" where
  "fireTimer i st =
     (if i < length (timers st) then
        (let st1 = st\<lparr>timers := take i (timers st) @ drop (Suc i) (timers st)\<rparr>
         in case snd (timers st ! i) of
              ClearProcessedEventIds \<Rightarrow> st1\<lparr>processedEventIds := {}\<rparr>
            | RemoveNotification n \<Rightarrow>
                st1\<lparr>bodyChildren := filter (\<lambda>c. node c \<noteq> n) (bodyChildren st1)\<rparr>)
      else st)"

subsection \<open>Republishing and the cart count\<close>

text \<open>The decimal digit of a number below ten.\<close>

definition digit :: "nat \<Rightarrow> char" where
  "digit n = ''0123456789'' ! (n mod 10)"

fun natToString :: "nat \<Rightarrow> string" where
  "natToString n =
     (if n < 10 then [digit n] else natToString (n div 10) @ [digit (n mod 10)])"

text \<open>\<open>Number.prototype.toString\<close> on an integer.\<close>

definition toString :: "int \<Rightarrow> string" where
  "toString k = (if k < 0 then CHR ''-'' # natToString (nat (- k)) else natToString (nat k))"

text \<open>
  \<open>document.dispatchEvent\<close> of a \<open>cart:update\<close> event: listeners run inside the call,
  the controller's own among them.
\<close>

definition dispatchCartUpdate :: "detail \<Rightarrow> state \<Rightarrow> state" where
  "dispatchCartUpdate d st =
     cartUpdateListener (Some d) (st\<lparr>dispatched := dispatched st @ [CartUpdateEvent d]\<rparr>)"

text \<open>
  \<open>updateCartCount\<close> up to its \<open>fetch\<close>, with the value of \<open>Date.now()\<close>. The flag
  returned says whether it is suspended at the \<open>fetch\<close> (\<open>False\<close>: rate limited, it
  has returned).
\<close>

definition updateCartCount :: "int \<Rightarrow> state \<Rightarrow> state \<times> bool" where
  "updateCartCount now st =
     (if now - lastCartCountUpdate st < 1000 then (st, False)
      else (st\<lparr>lastCartCountUpdate := now, requests := requests st @ [Get ''/cart.js'']\<rparr>,
            True))"

text \<open>
  \<open>updateCartCount\<close> from the moment the \<open>fetch\<close> settles (lines 255--280). Every
  failure ends in the \<open>catch\<close>, which only logs. \<open>cart.item_count.toString()\<close> throws on
  a missing count, at the first count element and before any is written.
\<close>

definition updateCartCount_settled :: "response \<Rightarrow> state \<Rightarrow> state" where
  "updateCartCount_settled r st =
     (case r of
        NetworkError \<Rightarrow> st
      | Response k b \<Rightarrow>
          if \<not> k then st
          else (case b of
                  None \<Rightarrow> st
                | Some cart \<Rightarrow>
                    (case item_count cart of
                       None \<Rightarrow>
                         if cartCountElements st = []
                         then st\<lparr>dispatched := dispatched st @ [CountUpdated None]\<rparr>
                         else st
                     | Some n \<Rightarrow>
                         st\<lparr>cartCountElements := map (\<lambda>_. toString n) (cartCountElements st),
                            dispatched := dispatched st @ [CountUpdated (Some n)]\<rparr>)))"

text \<open>
  \<open>triggerCartRefresh\<close> up to the \<open>fetch\<close> of \<open>updateCartCount\<close>. Its \<open>catch\<close> (with
  \<open>triggerSimpleCartUpdate\<close>) is not reached: \<open>dispatchEvent\<close> does not pass on what a
  listener throws, and \<open>updateCartCount\<close> catches everything itself.
\<close>

definition selfDetail :: detail where
  "selfDetail =
     \<lparr>eventId = None,
      data = Some \<lparr>source = Some ''product-addon'', didError = False, dataProductId = None\<rparr>\<rparr>"

definition triggerCartRefresh :: "int \<Rightarrow> state \<Rightarrow> state \<times> bool" where
  "triggerCartRefresh now st = updateCartCount now (dispatchCartUpdate selfDetail st)"

subsection \<open>Resuming \<open>handleCartAdd\<close>\<close>

text \<open>The \<open>finally\<close> block, and the end of the run: its task is gone.\<close>

definition finish :: "nat \<Rightarrow> state \<Rightarrow> state" where
  "finish i st =
     st\<lparr>isProcessingAddons := False, tasks := take i (tasks st) @ drop (Suc i) (tasks st)\<rparr>"

text \<open>The settle delay of task \<open>i\<close> is over (lines 121--126, into \<open>addToCart\<close>).\<close>

definition resumeAfterSettle :: "nat \<Rightarrow> state \<Rightarrow> state" where
  "resumeAfterSettle i st =
     (if i < length (tasks st) then
        (case tasks st ! i of
           AwaitSettle addons \<Rightarrow>
             (let addonItems = map (\<lambda>addon. Item (variantId addon) 1) addons
              in addToCart addonItems (st\<lparr>tasks := (tasks st)[i := AwaitAppend]\<rparr>))
         | AwaitAppend \<Rightarrow> st
         | AwaitCart \<Rightarrow> st)
      else st)"

text \<open>
  The append of task \<open>i\<close> has settled with \<open>r\<close> (lines 126--147); \<open>now\<close> is what
  \<open>Date.now()\<close> returns in \<open>updateCartCount\<close>.
\<close>

definition resumeAfterAppend :: "nat \<Rightarrow> response \<Rightarrow> int \<Rightarrow> state \<Rightarrow> state" where
  "resumeAfterAppend i r now st =
     (if i < length (tasks st) \<and> tasks st ! i = AwaitAppend then
        (case addToCart_settled r of
           Inl e \<Rightarrow>
             finish i (showErrorMessage ''Failed to add some add-on products to cart.'' st)
         | Inr cart \<Rightarrow>
             (let st1 = st\<lparr>pendingAddons := None\<rparr>;
                  st2 = st1\<lparr>timers := timers st1 @ [(5000, ClearProcessedEventIds)]\<rparr>;
                  (st3, suspended) = triggerCartRefresh now st2
              in if suspended then st3\<lparr>tasks := (tasks st3)[i := AwaitCart]\<rparr>
                 else finish i st3))
      else st)"

text \<open>The cart fetch of task \<open>i\<close> has settled with \<open>r\<close> (to the end of \<open>handleCartAdd\<close>).\<close>

definition resumeAfterCart :: "nat \<Rightarrow> response \<Rightarrow> state \<Rightarrow> state" where
  "resumeAfterCart i r st =
     (if i < length (tasks st) \<and> tasks st ! i = AwaitCart
      then finish i (updateCartCount_settled r st)
      else st)"

subsection \<open>The page as a machine\<close>

text \<open>
  What can happen on the page, one callback at a time: a submit event, a \<open>cart:update\<close>
  event from the host, the shopper changing the checked boxes, a suspended task being
  resumed, a timer firing.
\<close>

datatype input =
    Submit target
  | CartUpdate event
  | SetChecked "checkbox list"
  | SettleElapsed nat
  | AppendSettled nat response int
  | CartSettled nat response
  | TimerFired nat

fun step :: "input \<Rightarrow> state \<Rightarrow> state" where
  "step (Submit t) st = submitListener t st"
| "step (CartUpdate ev) st = cartUpdateListener ev st"
| "step (SetChecked boxes) st = st\<lparr>checkedBoxes := boxes\<rparr>"
| "step (SettleElapsed i) st = resumeAfterSettle i st"
| "step (AppendSettled i r now) st = resumeAfterAppend i r now st"
| "step (CartSettled i r) st = resumeAfterCart i r st"
| "step (TimerFired i) st = fireTimer i st"

fun run :: "input list \<Rightarrow> state \<Rightarrow> state" where
  "run [] st = st"
| "run (x # xs) st = run xs (step x st)"

subsection \<open>Predicates used in the statements\<close>

text \<open>
  A notification is accepted in a state when it passes the filter of the listener and
  every return of \<open>handleCartAdd\<close> before line 105.
\<close>

definition accepted :: "event \<Rightarrow> state \<Rightarrow> bool" where
  "accepted ev st =
     (isAddToCartEvent ev \<and> \<not> isProcessingAddons st \<and>
      (case eventKey ev of None \<Rightarrow> True | Some e \<Rightarrow> e \<notin> processedEventIds st))"

text \<open>Inputs that come from outside and do not resume a suspended task.\<close>

fun external :: "input \<Rightarrow> bool" where
  "external (Submit t) = True"
| "external (CartUpdate ev) = True"
| "external (SetChecked boxes) = True"
| "external (TimerFired i) = True"
| "external (SettleElapsed i) = False"
| "external (AppendSettled i r now) = False"
| "external (CartSettled i r) = False"

text \<open>The input fires the timer of line 132, which empties the processed identifiers.\<close>

fun prunes :: "input \<Rightarrow> state \<Rightarrow> bool" where
  "prunes (TimerFired i) st =
     (i < length (timers st) \<and> snd (timers st ! i) = ClearProcessedEventIds)"
| "prunes (Submit t) st = False"
| "prunes (CartUpdate ev) st = False"
| "prunes (SetChecked boxes) st = False"
| "prunes (SettleElapsed i) st = False"
| "prunes (AppendSettled i r now) st = False"
| "prunes (CartSettled i r) st = False"

text \<open>No input of the list, run from the state, fires that timer.\<close>

fun noPrune :: "input list \<Rightarrow> state \<Rightarrow> bool" where
  "noPrune [] st = True"
| "noPrune (x # xs) st = (\<not> prunes x st \<and> noPrune xs (step x st))"

subsection \<open>A page for the worked instances\<close>

text \<open>
  Two well-formed add-on checkboxes, a \<open>cart:update\<close> event with a given source tag
  and identifier, a form that posts to the cart-add endpoint, and two responses.
\<close>

definition boxV1 :: checkbox where
  "boxV1 = Checkbox (Some (Container (Some
     \<lparr>addonProductId = Some ''P1'', addonVariantId = Some ''V1'', addonPrice = Some ''9.99''\<rparr>)))"

definition boxV2 :: checkbox where
  "boxV2 = Checkbox (Some (Container (Some
     \<lparr>addonProductId = Some ''P2'', addonVariantId = Some ''V2'', addonPrice = Some ''4.50''\<rparr>)))"

definition cartEvent :: "string \<Rightarrow> string \<Rightarrow> event" where
  "cartEvent src e =
     Some \<lparr>eventId = Some e,
           data = Some \<lparr>source = Some src, didError = False, dataProductId = Some ''77''\<rparr>\<rparr>"

definition cartAddForm :: target where
  "cartAddForm = Form (Some ''/cart/add'')"

definition failedResponse :: response where
  "failedResponse = Response False (Some \<lparr>message = Some ''Sold out'', item_count = None\<rparr>)"

definition cartResponse :: response where
  "cartResponse = Response True (Some \<lparr>message = None, item_count = Some 2\<rparr>)"

section \<open>Facts about the single callbacks\<close>

subsection \<open>Rejections of the listener\<close>

lemma own_not_add: "ownEvent ev \<Longrightarrow> \<not> isAddToCartEvent ev"
  by (auto simp: ownEvent_def isAddToCartEvent_def split: option.splits)

lemma listener_reject: "\<not> isAddToCartEvent ev \<Longrightarrow> cartUpdateListener ev st = st"
  by (simp add: cartUpdateListener_def)

lemma handleCartAdd_busy: "isProcessingAddons st \<Longrightarrow> handleCartAdd ev st = st"
  by (simp add: handleCartAdd_def)

lemma listener_busy: "isProcessingAddons st \<Longrightarrow> cartUpdateListener ev st = st"
  by (simp add: cartUpdateListener_def handleCartAdd_busy)

lemma listener_self: "cartUpdateListener (Some selfDetail) st = st"
  by (simp add: cartUpdateListener_def isAddToCartEvent_def selfDetail_def)

lemma dispatch_self:
  "dispatchCartUpdate selfDetail st = st\<lparr>dispatched := dispatched st @ [CartUpdateEvent selfDetail]\<rparr>"
  by (simp add: dispatchCartUpdate_def listener_self)

subsection \<open>Fields a callback leaves alone\<close>

lemma enter_fields:
  "pendingAddons (enterCriticalSection st) = pendingAddons st"
  "processedEventIds (enterCriticalSection st) = processedEventIds st"
  "lastCartCountUpdate (enterCriticalSection st) = lastCartCountUpdate st"
  "checkedBoxes (enterCriticalSection st) = checkedBoxes st"
  "cartCountElements (enterCriticalSection st) = cartCountElements st"
  "bodyChildren (enterCriticalSection st) = bodyChildren st"
  "nextNode (enterCriticalSection st) = nextNode st"
  "timers (enterCriticalSection st) = timers st"
  "requests (enterCriticalSection st) = requests st"
  "dispatched (enterCriticalSection st) = dispatched st"
  by (simp_all add: enterCriticalSection_def)

lemma handleCartAdd_fields:
  "pendingAddons (handleCartAdd ev st) = pendingAddons st"
  "lastCartCountUpdate (handleCartAdd ev st) = lastCartCountUpdate st"
  "checkedBoxes (handleCartAdd ev st) = checkedBoxes st"
  "cartCountElements (handleCartAdd ev st) = cartCountElements st"
  "bodyChildren (handleCartAdd ev st) = bodyChildren st"
  "nextNode (handleCartAdd ev st) = nextNode st"
  "timers (handleCartAdd ev st) = timers st"
  "requests (handleCartAdd ev st) = requests st"
  "dispatched (handleCartAdd ev st) = dispatched st"
  by (simp_all add: handleCartAdd_def enter_fields split: option.splits)

lemma listener_fields:
  "pendingAddons (cartUpdateListener ev st) = pendingAddons st"
  "lastCartCountUpdate (cartUpdateListener ev st) = lastCartCountUpdate st"
  "checkedBoxes (cartUpdateListener ev st) = checkedBoxes st"
  "cartCountElements (cartUpdateListener ev st) = cartCountElements st"
  "bodyChildren (cartUpdateListener ev st) = bodyChildren st"
  "nextNode (cartUpdateListener ev st) = nextNode st"
  "timers (cartUpdateListener ev st) = timers st"
  "requests (cartUpdateListener ev st) = requests st"
  "dispatched (cartUpdateListener ev st) = dispatched st"
  by (simp_all add: cartUpdateListener_def handleCartAdd_fields)

lemma finish_fields:
  "pendingAddons (finish i st) = pendingAddons st"
  "processedEventIds (finish i st) = processedEventIds st"
  "bodyChildren (finish i st) = bodyChildren st"
  "nextNode (finish i st) = nextNode st"
  "timers (finish i st) = timers st"
  "requests (finish i st) = requests st"
  "isProcessingAddons (finish i st) = False"
  "tasks (finish i st) = take i (tasks st) @ drop (Suc i) (tasks st)"
  by (simp_all add: finish_def)

lemma updateCartCount_settled_fields:
  "pendingAddons (updateCartCount_settled r st) = pendingAddons st"
  "processedEventIds (updateCartCount_settled r st) = processedEventIds st"
  "isProcessingAddons (updateCartCount_settled r st) = isProcessingAddons st"
  "bodyChildren (updateCartCount_settled r st) = bodyChildren st"
  "nextNode (updateCartCount_settled r st) = nextNode st"
  "timers (updateCartCount_settled r st) = timers st"
  "requests (updateCartCount_settled r st) = requests st"
  "tasks (updateCartCount_settled r st) = tasks st"
  by (simp_all add: updateCartCount_settled_def split: response.splits option.splits)

lemma showErrorMessage_fields:
  "pendingAddons (showErrorMessage m st) = pendingAddons st"
  "isProcessingAddons (showErrorMessage m st) = isProcessingAddons st"
  "processedEventIds (showErrorMessage m st) = processedEventIds st"
  "lastCartCountUpdate (showErrorMessage m st) = lastCartCountUpdate st"
  "checkedBoxes (showErrorMessage m st) = checkedBoxes st"
  "requests (showErrorMessage m st) = requests st"
  "tasks (showErrorMessage m st) = tasks st"
  by (simp_all add: showErrorMessage_def)

lemma submitListener_fields:
  "isProcessingAddons (submitListener t st) = isProcessingAddons st"
  "processedEventIds (submitListener t st) = processedEventIds st"
  "lastCartCountUpdate (submitListener t st) = lastCartCountUpdate st"
  "bodyChildren (submitListener t st) = bodyChildren st"
  "nextNode (submitListener t st) = nextNode st"
  "timers (submitListener t st) = timers st"
  "requests (submitListener t st) = requests st"
  "tasks (submitListener t st) = tasks st"
  by (simp_all add: submitListener_def handleFormSubmit_def Let_def)

lemma fireTimer_fields:
  "isProcessingAddons (fireTimer i st) = isProcessingAddons st"
  "pendingAddons (fireTimer i st) = pendingAddons st"
  "lastCartCountUpdate (fireTimer i st) = lastCartCountUpdate st"
  "nextNode (fireTimer i st) = nextNode st"
  "requests (fireTimer i st) = requests st"
  "tasks (fireTimer i st) = tasks st"
  by (simp_all add: fireTimer_def Let_def split: timer_action.splits)

subsection \<open>The resumed segments in closed form\<close>

lemma triggerCartRefresh_eq:
  "triggerCartRefresh now st =
     (if now - lastCartCountUpdate st < 1000
      then (st\<lparr>dispatched := dispatched st @ [CartUpdateEvent selfDetail]\<rparr>, False)
      else (st\<lparr>dispatched := dispatched st @ [CartUpdateEvent selfDetail],
               lastCartCountUpdate := now, requests := requests st @ [Get ''/cart.js'']\<rparr>, True))"
  by (simp add: triggerCartRefresh_def dispatch_self updateCartCount_def)

lemma resumeAfterAppend_failure:
  assumes "i < length (tasks st)" "tasks st ! i = AwaitAppend" "isl (addToCart_settled r)"
  shows "resumeAfterAppend i r now st =
         finish i (showErrorMessage ''Failed to add some add-on products to cart.'' st)"
  using assms by (cases "addToCart_settled r") (simp_all add: resumeAfterAppend_def showErrorMessage_def)

lemma resumeAfterAppend_success:
  assumes "i < length (tasks st)" "tasks st ! i = AwaitAppend" "\<not> isl (addToCart_settled r)"
  shows "resumeAfterAppend i r now st =
     (if now - lastCartCountUpdate st < 1000
      then finish i (st\<lparr>pendingAddons := None,
                       timers := timers st @ [(5000, ClearProcessedEventIds)],
                       dispatched := dispatched st @ [CartUpdateEvent selfDetail]\<rparr>)
      else st\<lparr>pendingAddons := None,
              timers := timers st @ [(5000, ClearProcessedEventIds)],
              dispatched := dispatched st @ [CartUpdateEvent selfDetail],
              lastCartCountUpdate := now, requests := requests st @ [Get ''/cart.js''],
              tasks := (tasks st)[i := AwaitCart]\<rparr>)"
  using assms by (cases "addToCart_settled r") (simp_all add: resumeAfterAppend_def triggerCartRefresh_eq)

lemma resumeAfterAppend_idle:
  "\<not> (i < length (tasks st) \<and> tasks st ! i = AwaitAppend) \<Longrightarrow> resumeAfterAppend i r now st = st"
  by (auto simp: resumeAfterAppend_def)

lemma resumeAfterSettle_at:
  assumes "tasks s = ts @ [AwaitSettle a]"
  shows "resumeAfterSettle (length ts) s =
           s\<lparr>tasks := ts @ [AwaitAppend],
             requests := requests s @ [Post ''/cart/add.js'' (map (\<lambda>addon. Item (variantId addon) 1) a)]\<rparr>"
  using assms by (simp add: resumeAfterSettle_def addToCart_def Let_def)

lemma addToCart_fails:
  "isl (addToCart_settled r) \<longleftrightarrow>
     (case r of NetworkError \<Rightarrow> True | Response k b \<Rightarrow> \<not> k \<or> b = None)"
  by (simp add: addToCart_settled_def split: response.splits option.splits)

subsection \<open>What an accepted notification does\<close>

lemma addonsToAdd_cong:
  "pendingAddons s = pendingAddons t \<Longrightarrow> checkedBoxes s = checkedBoxes t \<Longrightarrow> addonsToAdd s = addonsToAdd t"
  by (simp add: addonsToAdd_def getCheckedAddons_def split: option.splits)

lemma addonsToAdd_ids:
  "addonsToAdd (st\<lparr>processedEventIds := X\<rparr>) = addonsToAdd st"
  by (rule addonsToAdd_cong) simp_all

lemma accepted_enter:
  assumes "accepted ev st"
  shows "cartUpdateListener ev st =
           enterCriticalSection
             (case eventKey ev of None \<Rightarrow> st
              | Some e \<Rightarrow> st\<lparr>processedEventIds := insert e (processedEventIds st)\<rparr>)"
  using assms
  by (auto simp: accepted_def cartUpdateListener_def handleCartAdd_def own_not_add split: option.splits)

lemma not_accepted_noop: "\<not> accepted ev st \<Longrightarrow> cartUpdateListener ev st = st"
  by (auto simp: accepted_def cartUpdateListener_def handleCartAdd_def split: option.splits)

lemma listener_tasks:
  "tasks (cartUpdateListener ev st) =
     (if accepted ev st \<and> addonsToAdd st \<noteq> [] then tasks st @ [AwaitSettle (addonsToAdd st)]
      else tasks st)"
proof (cases "accepted ev st")
  case True
  then show ?thesis
    by (cases "eventKey ev")
       (simp_all add: accepted_enter enterCriticalSection_def addonsToAdd_ids)
next
  case False
  then show ?thesis by (simp add: not_accepted_noop)
qed

lemma listener_flag:
  "isProcessingAddons (cartUpdateListener ev st) =
     (isProcessingAddons st \<or> (accepted ev st \<and> addonsToAdd st \<noteq> []))"
proof (cases "accepted ev st")
  case True
  then show ?thesis
    by (cases "eventKey ev")
       (auto simp: accepted_enter enterCriticalSection_def addonsToAdd_ids accepted_def)
next
  case False
  then show ?thesis by (simp add: not_accepted_noop)
qed

lemma listener_ids:
  "processedEventIds (cartUpdateListener ev st) =
     (if accepted ev st then (case eventKey ev of None \<Rightarrow> processedEventIds st
                              | Some e \<Rightarrow> insert e (processedEventIds st))
      else processedEventIds st)"
proof (cases "accepted ev st")
  case True
  then show ?thesis
    by (cases "eventKey ev") (simp_all add: accepted_enter enter_fields)
next
  case False
  then show ?thesis by (simp add: not_accepted_noop)
qed

lemma duplicate_rejected:
  assumes "eventKey ev = Some e" and "e \<in> processedEventIds st"
  shows "cartUpdateListener ev st = st"
  using assms by (simp add: not_accepted_noop accepted_def)

section \<open>Facts about runs of the page\<close>

subsection \<open>The pending set\<close>

lemma step_pendingAddons:
  "pendingAddons (step x st) = pendingAddons st \<or> pendingAddons (step x st) = None \<or>
   (getCheckedAddons st \<noteq> [] \<and> pendingAddons (step x st) = Some (getCheckedAddons st))"
proof (cases x)
  case (Submit t)
  then show ?thesis by (simp add: submitListener_def handleFormSubmit_def Let_def)
next
  case (CartUpdate ev)
  then show ?thesis by (simp add: listener_fields)
next
  case (SetChecked b)
  then show ?thesis by simp
next
  case (SettleElapsed i)
  then show ?thesis by (simp add: resumeAfterSettle_def addToCart_def Let_def split: task.splits)
next
  case (AppendSettled i r now)
  show ?thesis
  proof (cases "i < length (tasks st) \<and> tasks st ! i = AwaitAppend")
    case True
    then show ?thesis using AppendSettled
      by (cases "isl (addToCart_settled r)")
         (simp_all add: resumeAfterAppend_failure resumeAfterAppend_success finish_fields showErrorMessage_def)
  next
    case False
    then show ?thesis using AppendSettled by (simp add: resumeAfterAppend_idle)
  qed
next
  case (CartSettled i r)
  then show ?thesis by (simp add: resumeAfterCart_def finish_fields updateCartCount_settled_fields)
next
  case (TimerFired i)
  then show ?thesis by (simp add: fireTimer_def Let_def split: timer_action.splits)
qed

lemma step_pending_ok: "pendingAddons st \<noteq> Some [] \<Longrightarrow> pendingAddons (step x st) \<noteq> Some []"
  using step_pendingAddons [of x st] by auto

lemma run_pending_ok: "pendingAddons st \<noteq> Some [] \<Longrightarrow> pendingAddons (run xs st) \<noteq> Some []"
  by (induction xs arbitrary: st) (simp_all add: step_pending_ok)

lemma cleared_only_on_success:
  assumes "pendingAddons st \<noteq> None" and "pendingAddons (step x st) = None"
  shows "\<exists>i r now. x = AppendSettled i r now \<and> \<not> isl (addToCart_settled r)"
proof (cases x)
  case (Submit t)
  then show ?thesis using assms
    by (auto simp: submitListener_def handleFormSubmit_def Let_def split: if_splits)
next
  case (CartUpdate ev)
  then show ?thesis using assms by (simp add: listener_fields)
next
  case (SetChecked b)
  then show ?thesis using assms by simp
next
  case (SettleElapsed i)
  then show ?thesis using assms
    by (auto simp: resumeAfterSettle_def addToCart_def Let_def split: task.splits if_splits)
next
  case (AppendSettled i r now)
  show ?thesis
  proof (cases "i < length (tasks st) \<and> tasks st ! i = AwaitAppend")
    case True
    then show ?thesis using AppendSettled assms
      by (cases "isl (addToCart_settled r)")
         (auto simp: resumeAfterAppend_failure finish_fields showErrorMessage_fields)
  next
    case False
    then show ?thesis using AppendSettled assms by (simp add: resumeAfterAppend_idle)
  qed
next
  case (CartSettled i r)
  then show ?thesis using assms
    by (auto simp: resumeAfterCart_def finish_fields updateCartCount_settled_fields split: if_splits)
next
  case (TimerFired i)
  then show ?thesis using assms by (simp add: fireTimer_fields)
qed

subsection \<open>While the flag is set\<close>

lemma external_step_busy:
  assumes "external x" and "isProcessingAddons st"
  shows "isProcessingAddons (step x st) \<and> tasks (step x st) = tasks st \<and>
         requests (step x st) = requests st \<and>
         lastCartCountUpdate (step x st) = lastCartCountUpdate st"
  using assms
  by (cases x) (simp_all add: submitListener_fields listener_busy fireTimer_fields)

lemma external_run_busy:
  assumes "list_all external xs" and "isProcessingAddons st"
  shows "isProcessingAddons (run xs st) \<and> tasks (run xs st) = tasks st \<and>
         requests (run xs st) = requests st \<and>
         lastCartCountUpdate (run xs st) = lastCartCountUpdate st"
  using assms
proof (induction xs arbitrary: st)
  case Nil
  then show ?case by simp
next
  case (Cons x xs)
  from Cons.prems have x: "external x" and xs: "list_all external xs" by simp_all
  from external_step_busy [OF x Cons.prems(2)] Cons.IH [OF xs, of "step x st"]
  show ?case by simp
qed

subsection \<open>At most one suspended task, and the flag says whether there is one\<close>

lemma step_one_task:
  assumes "(isProcessingAddons st \<longleftrightarrow> tasks st \<noteq> []) \<and> length (tasks st) \<le> 1"
  shows "(isProcessingAddons (step x st) \<longleftrightarrow> tasks (step x st) \<noteq> []) \<and> length (tasks (step x st)) \<le> 1"
proof (cases x)
  case (Submit t)
  then show ?thesis using assms by (simp add: submitListener_fields)
next
  case (CartUpdate ev)
  then show ?thesis using assms by (auto simp: listener_flag listener_tasks accepted_def)
next
  case (SetChecked b)
  then show ?thesis using assms by simp
next
  case (SettleElapsed i)
  then show ?thesis using assms
    by (auto simp: resumeAfterSettle_def addToCart_def Let_def split: task.splits)
next
  case (AppendSettled i r now)
  show ?thesis
  proof (cases "i < length (tasks st) \<and> tasks st ! i = AwaitAppend")
    case True
    with assms have "i = 0" and "tasks st = [AwaitAppend]"
      by (cases "tasks st"; auto)+
    then show ?thesis using AppendSettled True assms
      by (cases "isl (addToCart_settled r)")
         (simp_all add: resumeAfterAppend_failure resumeAfterAppend_success finish_def showErrorMessage_def)
  next
    case False
    then show ?thesis using AppendSettled assms by (simp add: resumeAfterAppend_idle)
  qed
next
  case (CartSettled i r)
  show ?thesis
  proof (cases "i < length (tasks st) \<and> tasks st ! i = AwaitCart")
    case True
    with assms have "i = 0" and "tasks st = [AwaitCart]"
      by (cases "tasks st"; auto)+
    then show ?thesis using CartSettled True
      by (simp add: resumeAfterCart_def finish_fields updateCartCount_settled_fields)
  next
    case False
    then show ?thesis using CartSettled assms by (auto simp: resumeAfterCart_def)
  qed
next
  case (TimerFired i)
  then show ?thesis using assms by (simp add: fireTimer_fields)
qed

lemma run_one_task:
  assumes "(isProcessingAddons st \<longleftrightarrow> tasks st \<noteq> []) \<and> length (tasks st) \<le> 1"
  shows "(isProcessingAddons (run xs st) \<longleftrightarrow> tasks (run xs st) \<noteq> []) \<and> length (tasks (run xs st)) \<le> 1"
  using assms
proof (induction xs arbitrary: st)
  case Nil
  then show ?case by simp
next
  case (Cons x xs)
  show ?case using Cons.IH [OF step_one_task [OF Cons.prems]] by simp
qed

lemma reachable_one_task:
  "(isProcessingAddons (run xs (new_ProductAddon b c)) \<longleftrightarrow> tasks (run xs (new_ProductAddon b c)) \<noteq> [])
   \<and> length (tasks (run xs (new_ProductAddon b c))) \<le> 1"
  by (rule run_one_task) (simp add: new_ProductAddon_def)

lemma reachable_await_append:
  assumes "st = run ins (new_ProductAddon boxes counts)"
    and "i < length (tasks st)" and "tasks st ! i = AwaitAppend"
  shows "i = 0" and "tasks st = [AwaitAppend]"
  using assms reachable_one_task [of ins boxes counts]
  by (cases "tasks st"; auto)+

subsection \<open>Banner nodes are fresh\<close>

lemma step_fresh:
  assumes "\<forall>c \<in> set (bodyChildren st). node c < nextNode st"
  shows "\<forall>c \<in> set (bodyChildren (step x st)). node c < nextNode (step x st)"
proof (cases x)
  case (Submit t)
  then show ?thesis using assms by (simp add: submitListener_fields)
next
  case (CartUpdate ev)
  then show ?thesis using assms by (simp add: listener_fields)
next
  case (SetChecked b)
  then show ?thesis using assms by simp
next
  case (SettleElapsed i)
  then show ?thesis using assms
    by (auto simp: resumeAfterSettle_def addToCart_def Let_def split: task.splits)
next
  case (AppendSettled i r now)
  show ?thesis
  proof (cases "i < length (tasks st) \<and> tasks st ! i = AwaitAppend")
    case True
    then show ?thesis using AppendSettled assms
      by (cases "isl (addToCart_settled r)")
         (auto simp: resumeAfterAppend_failure resumeAfterAppend_success finish_def showErrorMessage_def less_Suc_eq)
  next
    case False
    then show ?thesis using AppendSettled assms by (simp add: resumeAfterAppend_idle)
  qed
next
  case (CartSettled i r)
  then show ?thesis using assms
    by (simp add: resumeAfterCart_def finish_fields updateCartCount_settled_fields)
next
  case (TimerFired i)
  then show ?thesis using assms
    by (auto simp: fireTimer_def Let_def split: timer_action.splits)
qed

lemma run_fresh:
  assumes "\<forall>c \<in> set (bodyChildren st). node c < nextNode st"
  shows "\<forall>c \<in> set (bodyChildren (run xs st)). node c < nextNode (run xs st)"
  using assms
proof (induction xs arbitrary: st)
  case Nil
  then show ?case by simp
next
  case (Cons x xs)
  show ?case using Cons.IH [OF step_fresh [OF Cons.prems]] by simp
qed

lemma reachable_fresh:
  "\<forall>el \<in> set (bodyChildren (run xs (new_ProductAddon b c))). node el < nextNode (run xs (new_ProductAddon b c))"
  by (rule run_fresh) (simp add: new_ProductAddon_def)

subsection \<open>Recorded identifiers stay until the pruning timer fires\<close>

lemma step_keeps_id:
  assumes "\<not> prunes x st" and "e \<in> processedEventIds st"
  shows "e \<in> processedEventIds (step x st)"
proof (cases x)
  case (Submit t)
  then show ?thesis using assms by (simp add: submitListener_fields)
next
  case (CartUpdate ev)
  then show ?thesis using assms by (simp add: listener_ids split: option.splits)
next
  case (SetChecked b)
  then show ?thesis using assms by simp
next
  case (SettleElapsed i)
  then show ?thesis using assms
    by (auto simp: resumeAfterSettle_def addToCart_def Let_def split: task.splits)
next
  case (AppendSettled i r now)
  show ?thesis
  proof (cases "i < length (tasks st) \<and> tasks st ! i = AwaitAppend")
    case True
    then show ?thesis using AppendSettled assms
      by (cases "isl (addToCart_settled r)")
         (simp_all add: resumeAfterAppend_failure resumeAfterAppend_success finish_fields showErrorMessage_fields)
  next
    case False
    then show ?thesis using AppendSettled assms by (simp add: resumeAfterAppend_idle)
  qed
next
  case (CartSettled i r)
  then show ?thesis using assms
    by (simp add: resumeAfterCart_def finish_fields updateCartCount_settled_fields)
next
  case (TimerFired i)
  then show ?thesis using assms
    by (auto simp: fireTimer_def Let_def split: timer_action.splits)
qed

lemma run_keeps_id:
  assumes "noPrune xs st" and "e \<in> processedEventIds st"
  shows "e \<in> processedEventIds (run xs st)"
  using assms
proof (induction xs arbitrary: st)
  case Nil
  then show ?case by simp
next
  case (Cons x xs)
  from Cons.prems have "\<not> prunes x st" and "noPrune xs (step x st)" by simp_all
  with Cons.IH [of "step x st"] step_keeps_id [of x st e] Cons.prems(2)
  show ?case by simp
qed

section \<open>The claims\<close>

subsection \<open>C1: the order of the rejection checks\<close>

text \<open>
  Claim C1, as amended. A \<open>cart:update\<close> notification first meets the filter of the
  listener (\<open>isAddToCartEvent\<close>): it is dropped, with no change to any field, unless its
  data is present, its source tag is \<open>product-form-component\<close>, it reports no error and
  it carries a product identifier. Only then does \<open>handleCartAdd\<close> run; behind the
  filter its own-tag check never fires, a set flag rejects the notification unchanged,
  an identifier already recorded rejects it unchanged, and otherwise the identifier is
  recorded. So a notification rejected for its source tag, its error flag or its
  missing product identifier never has its identifier recorded.
\<close>

theorem notification_check_order:
  "(isAddToCartEvent ev \<longleftrightarrow>
      (\<exists>d dt. ev = Some d \<and> data d = Some dt \<and> source dt = Some ''product-form-component''
          \<and> \<not> didError dt \<and> truthy (dataProductId dt)))
   \<and> (\<not> isAddToCartEvent ev \<longrightarrow> cartUpdateListener ev st = st)
   \<and> (isAddToCartEvent ev \<longrightarrow> \<not> ownEvent ev)
   \<and> (isAddToCartEvent ev \<and> isProcessingAddons st \<longrightarrow> cartUpdateListener ev st = st)
   \<and> (isAddToCartEvent ev \<and> \<not> isProcessingAddons st \<longrightarrow>
        (case eventKey ev of
           None \<Rightarrow> processedEventIds (cartUpdateListener ev st) = processedEventIds st
         | Some e \<Rightarrow>
             if e \<in> processedEventIds st then cartUpdateListener ev st = st
             else processedEventIds (cartUpdateListener ev st) = insert e (processedEventIds st)))"
proof (intro conjI impI)
  show "isAddToCartEvent ev \<longleftrightarrow>
      (\<exists>d dt. ev = Some d \<and> data d = Some dt \<and> source dt = Some ''product-form-component''
          \<and> \<not> didError dt \<and> truthy (dataProductId dt))"
    by (auto simp: isAddToCartEvent_def split: option.splits)
next
  assume "\<not> isAddToCartEvent ev"
  then show "cartUpdateListener ev st = st" by (rule listener_reject)
next
  assume "isAddToCartEvent ev"
  then show "\<not> ownEvent ev" using own_not_add by blast
next
  assume "isAddToCartEvent ev \<and> isProcessingAddons st"
  then show "cartUpdateListener ev st = st" by (simp add: listener_busy)
next
  assume a: "isAddToCartEvent ev \<and> \<not> isProcessingAddons st"
  show "case eventKey ev of
           None \<Rightarrow> processedEventIds (cartUpdateListener ev st) = processedEventIds st
         | Some e \<Rightarrow>
             if e \<in> processedEventIds st then cartUpdateListener ev st = st
             else processedEventIds (cartUpdateListener ev st) = insert e (processedEventIds st)"
  proof (cases "eventKey ev")
    case None
    then show ?thesis by (simp add: listener_ids)
  next
    case (Some e)
    show ?thesis
    proof (cases "e \<in> processedEventIds st")
      case True
      with Some have "\<not> accepted ev st" by (simp add: accepted_def)
      then show ?thesis using Some True by (simp add: not_accepted_noop)
    next
      case False
      with Some a have "accepted ev st" by (simp add: accepted_def)
      then show ?thesis using Some False by (simp add: listener_ids)
    qed
  qed
qed

text \<open>
  On a fresh page: an event from another component is dropped and leaves the state as
  it is; the same event from the product form has its identifier recorded.
\<close>

theorem notification_check_order_witness:
  "\<not> isAddToCartEvent (cartEvent ''cart-items'' ''e1'')
   \<and> cartUpdateListener (cartEvent ''cart-items'' ''e1'') (new_ProductAddon [boxV1] []) =
       new_ProductAddon [boxV1] []
   \<and> isAddToCartEvent (cartEvent ''product-form-component'' ''e1'')
   \<and> \<not> isProcessingAddons (new_ProductAddon [boxV1] [])
   \<and> processedEventIds
        (cartUpdateListener (cartEvent ''product-form-component'' ''e1'') (new_ProductAddon [boxV1] [])) =
       insert ''e1'' (processedEventIds (new_ProductAddon [boxV1] []))"
proof -
  have h1: "\<not> isAddToCartEvent (cartEvent ''cart-items'' ''e1'')" by code_simp
  have h2: "isAddToCartEvent (cartEvent ''product-form-component'' ''e1'')" by code_simp
  have h3: "\<not> isProcessingAddons (new_ProductAddon [boxV1] [])" by code_simp
  have k: "eventKey (cartEvent ''product-form-component'' ''e1'') = Some ''e1''" by code_simp
  have n: "''e1'' \<notin> processedEventIds (new_ProductAddon [boxV1] [])" by code_simp
  from notification_check_order [of "cartEvent ''cart-items'' ''e1''" "new_ProductAddon [boxV1] []"] h1
  have c1: "cartUpdateListener (cartEvent ''cart-items'' ''e1'') (new_ProductAddon [boxV1] []) =
       new_ProductAddon [boxV1] []" by blast
  from notification_check_order [of "cartEvent ''product-form-component'' ''e1''" "new_ProductAddon [boxV1] []"] h2 h3
  have "case eventKey (cartEvent ''product-form-component'' ''e1'') of
           None \<Rightarrow> processedEventIds (cartUpdateListener (cartEvent ''product-form-component'' ''e1'') (new_ProductAddon [boxV1] [])) = processedEventIds (new_ProductAddon [boxV1] [])
         | Some e \<Rightarrow>
             if e \<in> processedEventIds (new_ProductAddon [boxV1] []) then cartUpdateListener (cartEvent ''product-form-component'' ''e1'') (new_ProductAddon [boxV1] []) = new_ProductAddon [boxV1] []
             else processedEventIds (cartUpdateListener (cartEvent ''product-form-component'' ''e1'') (new_ProductAddon [boxV1] [])) = insert e (processedEventIds (new_ProductAddon [boxV1] []))"
    by blast
  then have c2: "processedEventIds
        (cartUpdateListener (cartEvent ''product-form-component'' ''e1'') (new_ProductAddon [boxV1] [])) =
       insert ''e1'' (processedEventIds (new_ProductAddon [boxV1] []))"
    using n by (simp add: k)
  show ?thesis using h1 h2 h3 c1 c2 by blast
qed

text \<open>
  The order 1, 2, 3 before 4 would record the identifier of an event that passes the
  own-tag, flag and duplicate checks and fails on its source tag. The code does not.
\<close>

theorem record_before_filter_counterexample:
  "\<not> ownEvent (cartEvent ''cart-items'' ''e1'')
   \<and> \<not> isProcessingAddons (new_ProductAddon [boxV1] [])
   \<and> ''e1'' \<notin> processedEventIds (new_ProductAddon [boxV1] [])
   \<and> eventKey (cartEvent ''cart-items'' ''e1'') = Some ''e1''
   \<and> ''e1'' \<notin> processedEventIds
        (cartUpdateListener (cartEvent ''cart-items'' ''e1'') (new_ProductAddon [boxV1] []))"
  by code_simp

subsection \<open>C2: what a submission stores\<close>

text \<open>
  Claim C2, as amended. For every form submission that targets the cart-add endpoint,
  the handler reads the checked add-on selections; when there is at least one, their
  sequence becomes the pending set, replacing (never merging with) any previous one,
  and nothing else changes. When none is checked the handler returns at once and the
  state, the pending set included, is left as it was.
\<close>

theorem submit_capture:
  assumes "targetsCartAdd t"
  shows "submitListener t st =
     (if getCheckedAddons st = [] then st
      else st\<lparr>pendingAddons := Some (getCheckedAddons st)\<rparr>)"
  using assms by (simp add: submitListener_def handleFormSubmit_def Let_def)

text \<open>With two boxes checked, the submission stores their two selections, in order.\<close>

theorem submit_capture_witness:
  "targetsCartAdd cartAddForm
   \<and> submitListener cartAddForm (new_ProductAddon [boxV1, boxV2] []) =
       (new_ProductAddon [boxV1, boxV2] [])
         \<lparr>pendingAddons := Some [\<lparr>productId = Some ''P1'', variantId = Some ''V1'', price = Some ''9.99''\<rparr>,
                                 \<lparr>productId = Some ''P2'', variantId = Some ''V2'', price = Some ''4.50''\<rparr>]\<rparr>"
proof -
  have h: "targetsCartAdd cartAddForm" by code_simp
  have g: "getCheckedAddons (new_ProductAddon [boxV1, boxV2] []) =
            [\<lparr>productId = Some ''P1'', variantId = Some ''V1'', price = Some ''9.99''\<rparr>,
             \<lparr>productId = Some ''P2'', variantId = Some ''V2'', price = Some ''4.50''\<rparr>]"
    by code_simp
  show ?thesis using h submit_capture [OF h, of "new_ProductAddon [boxV1, boxV2] []"]
    by (simp add: g)
qed

text \<open>
  A selection captured by one submission is still pending after a second submission
  made with no box checked.
\<close>

theorem stale_pending_counterexample:
  "getCheckedAddons (run [Submit cartAddForm, SetChecked []] (new_ProductAddon [boxV1] [])) = []
   \<and> pendingAddons
        (run [Submit cartAddForm, SetChecked [], Submit cartAddForm] (new_ProductAddon [boxV1] [])) =
       Some [\<lparr>productId = Some ''P1'', variantId = Some ''V1'', price = Some ''9.99''\<rparr>]"
  by code_simp

subsection \<open>C3: the flag around the critical section\<close>

text \<open>
  Claim C3. Take a notification whose handling enters the critical section (a task is
  suspended at the settle delay). The flag was clear before and is set in the state
  in which the delay begins. It stays set while any callbacks from outside run during
  the delay (\<open>xs\<close>), while the append is in flight (\<open>ys\<close>) and while the cart is
  fetched (\<open>zs\<close>); in any state with the flag set another notification changes
  nothing, so over the whole handling exactly one append request is sent, that of the
  first notification. The flag is cleared when the handling ends: at the append
  result when the append failed or the count refresh is rate limited, and otherwise
  at the result of the cart fetch; the task list is then what it was before.
\<close>

theorem processing_flag_brackets_critical_section:
  assumes entered: "tasks (cartUpdateListener ev st) \<noteq> tasks st"
    and xs: "list_all external xs" and ys: "list_all external ys" and zs: "list_all external zs"
  shows "let i = length (tasks st);
             st1 = cartUpdateListener ev st;
             s1 = run xs st1;
             s2 = run ys (resumeAfterSettle i s1);
             s3 = resumeAfterAppend i r now s2;
             s4 = resumeAfterCart i r2 (run zs s3)
         in \<not> isProcessingAddons st \<and> isProcessingAddons st1
            \<and> tasks st1 = tasks st @ [AwaitSettle (addonsToAdd st)]
            \<and> isProcessingAddons s1 \<and> requests s1 = requests st
            \<and> isProcessingAddons s2
            \<and> requests s2 = requests st @
                 [Post ''/cart/add.js'' (map (\<lambda>addon. Item (variantId addon) 1) (addonsToAdd st))]
            \<and> (\<forall>ev2 s. isProcessingAddons s \<longrightarrow> cartUpdateListener ev2 s = s)
            \<and> (if isl (addToCart_settled r) \<or> now - lastCartCountUpdate st < 1000
               then \<not> isProcessingAddons s3 \<and> tasks s3 = tasks st
               else isProcessingAddons s3 \<and> isProcessingAddons (run zs s3)
                    \<and> \<not> isProcessingAddons s4 \<and> tasks s4 = tasks st)"
proof -
  define i where "i = length (tasks st)"
  define st1 where "st1 = cartUpdateListener ev st"
  define s1 where "s1 = run xs st1"
  define t2 where "t2 = resumeAfterSettle i s1"
  define s2 where "s2 = run ys t2"
  define s3 where "s3 = resumeAfterAppend i r now s2"
  define s4 where "s4 = resumeAfterCart i r2 (run zs s3)"
  define items where "items = map (\<lambda>addon. Item (variantId addon) 1) (addonsToAdd st)"
  from entered have acc: "accepted ev st" and ne: "addonsToAdd st \<noteq> []"
    by (auto simp: listener_tasks split: if_splits)
  from acc have idle: "\<not> isProcessingAddons st" by (simp add: accepted_def)
  have f1: "isProcessingAddons st1" using acc ne by (simp add: st1_def listener_flag)
  have t1: "tasks st1 = tasks st @ [AwaitSettle (addonsToAdd st)]"
    using acc ne by (simp add: st1_def listener_tasks)
  have r1: "requests st1 = requests st" and l1: "lastCartCountUpdate st1 = lastCartCountUpdate st"
    by (simp_all add: st1_def listener_fields)
  from external_run_busy [OF xs f1]
  have b1: "isProcessingAddons s1" "tasks s1 = tasks st1" "requests s1 = requests st1"
    "lastCartCountUpdate s1 = lastCartCountUpdate st1"
    by (simp_all add: s1_def)
  have t2_eq: "t2 = s1\<lparr>tasks := tasks st @ [AwaitAppend], requests := requests s1 @ [Post ''/cart/add.js'' items]\<rparr>"
    unfolding t2_def i_def items_def
    by (rule resumeAfterSettle_at) (simp add: b1 t1)
  have f2: "isProcessingAddons t2" by (simp add: t2_eq b1)
  from external_run_busy [OF ys f2]
  have b2: "isProcessingAddons s2" "tasks s2 = tasks st @ [AwaitAppend]"
    "requests s2 = requests st @ [Post ''/cart/add.js'' items]"
    "lastCartCountUpdate s2 = lastCartCountUpdate st"
    by (simp_all add: s2_def t2_eq b1 r1 l1)
  have at: "i < length (tasks s2)" "tasks s2 ! i = AwaitAppend"
    by (simp_all add: b2 i_def)
  have busy: "\<forall>ev2 s. isProcessingAddons s \<longrightarrow> cartUpdateListener ev2 s = s"
    by (simp add: listener_busy)
  have last: "if isl (addToCart_settled r) \<or> now - lastCartCountUpdate st < 1000
               then \<not> isProcessingAddons s3 \<and> tasks s3 = tasks st
               else isProcessingAddons s3 \<and> isProcessingAddons (run zs s3)
                    \<and> \<not> isProcessingAddons s4 \<and> tasks s4 = tasks st"
  proof (cases "isl (addToCart_settled r)")
    case True
    then have "s3 = finish i (showErrorMessage ''Failed to add some add-on products to cart.'' s2)"
      unfolding s3_def using at by (simp add: resumeAfterAppend_failure)
    then show ?thesis using True by (simp add: finish_fields showErrorMessage_fields b2 i_def)
  next
    case False
    show ?thesis
    proof (cases "now - lastCartCountUpdate st < 1000")
      case True
      then show ?thesis using False at
        by (simp add: s3_def resumeAfterAppend_success b2 finish_fields i_def)
    next
      case lim: False
      have s3_eq: "isProcessingAddons s3" "tasks s3 = tasks st @ [AwaitCart]"
        using False lim at by (simp_all add: s3_def resumeAfterAppend_success b2 i_def)
      from external_run_busy [OF zs s3_eq(1)]
      have b3: "isProcessingAddons (run zs s3)" "tasks (run zs s3) = tasks st @ [AwaitCart]"
        by (simp_all add: s3_eq)
      have "s4 = finish i (updateCartCount_settled r2 (run zs s3))"
        by (simp add: s4_def resumeAfterCart_def b3 i_def)
      then have "\<not> isProcessingAddons s4 \<and> tasks s4 = tasks st"
        by (simp add: finish_fields updateCartCount_settled_fields b3 i_def)
      then show ?thesis using False lim s3_eq b3 by simp
    qed
  qed
  show ?thesis
    using idle f1 t1 b1(1,3) r1 b2(1,3) busy last
    unfolding Let_def i_def st1_def s1_def s2_def t2_def s3_def s4_def items_def
    by simp
qed

text \<open>
  A second notification during the settle delay and a submission during the append:
  one append request, and the flag is clear after the append has failed.
\<close>

theorem processing_flag_witness:
  "tasks (cartUpdateListener (cartEvent ''product-form-component'' ''e1'') (new_ProductAddon [boxV1] []))
     \<noteq> tasks (new_ProductAddon [boxV1] [])
   \<and> list_all external [CartUpdate (cartEvent ''product-form-component'' ''e2'')]
   \<and> list_all external [Submit cartAddForm]
   \<and> list_all external []
   \<and> isProcessingAddons (cartUpdateListener (cartEvent ''product-form-component'' ''e1'') (new_ProductAddon [boxV1] []))
   \<and> requests
        (run [CartUpdate (cartEvent ''product-form-component'' ''e1''),
              CartUpdate (cartEvent ''product-form-component'' ''e2''),
              SettleElapsed 0, Submit cartAddForm]
           (new_ProductAddon [boxV1] [])) =
       [Post ''/cart/add.js'' [Item (Some ''V1'') 1]]
   \<and> \<not> isProcessingAddons
        (run [CartUpdate (cartEvent ''product-form-component'' ''e1''),
              CartUpdate (cartEvent ''product-form-component'' ''e2''),
              SettleElapsed 0, Submit cartAddForm, AppendSettled 0 failedResponse 1700000000000]
           (new_ProductAddon [boxV1] []))"
proof -
  let ?ev = "cartEvent ''product-form-component'' ''e1''"
  let ?st = "new_ProductAddon [boxV1] []"
  let ?xs = "[CartUpdate (cartEvent ''product-form-component'' ''e2'')]"
  let ?ys = "[Submit cartAddForm]"
  have h1: "tasks (cartUpdateListener ?ev ?st) \<noteq> tasks ?st" by code_simp
  have h2: "list_all external ?xs" by simp
  have h3: "list_all external ?ys" by simp
  have h4: "list_all external []" by simp
  have l: "length (tasks ?st) = 0" by code_simp
  have a: "map (\<lambda>addon. Item (variantId addon) 1) (addonsToAdd ?st) = [Item (Some ''V1'') 1]" by code_simp
  have q: "requests ?st = []" by code_simp
  have f: "isl (addToCart_settled failedResponse)" by code_simp
  note c = processing_flag_brackets_critical_section
             [OF h1 h2 h3 h4, of failedResponse 1700000000000 cartResponse,
              unfolded Let_def if_P [OF disjI1 [OF f]] l a q append_Nil]
  from c have c1: "isProcessingAddons (cartUpdateListener ?ev ?st)" by blast
  from c have c2: "requests (run ?ys (resumeAfterSettle 0 (run ?xs (cartUpdateListener ?ev ?st)))) =
                     [Post ''/cart/add.js'' [Item (Some ''V1'') 1]]" by blast
  from c have c3: "\<not> isProcessingAddons (resumeAfterAppend 0 failedResponse 1700000000000
                     (run ?ys (resumeAfterSettle 0 (run ?xs (cartUpdateListener ?ev ?st)))))" by blast
  show ?thesis using h1 h2 h3 h4 c1 c2 c3 by (simp only: run.simps step.simps simp_thms)
qed

subsection \<open>C4: the body of the append request\<close>

text \<open>
  Claim C4. When a submission to the cart-add endpoint finds exactly two checked
  selectors with variant identifiers \<open>V1\<close> and \<open>V2\<close>, and an accepted notification
  follows (whatever the boxes are by then), the request sent after the settle delay is
  a POST to \<open>/cart/add.js\<close> whose items are \<open>{id: V1, quantity: 1}\<close> and
  \<open>{id: V2, quantity: 1}\<close>, in that order, and nothing else is sent.
\<close>

theorem two_addons_append_body:
  assumes boxes: "checkedBoxes st =
                    [Checkbox (Some (Container (Some d1))), Checkbox (Some (Container (Some d2)))]"
    and v1: "addonVariantId d1 = Some V1" and v2: "addonVariantId d2 = Some V2"
    and form: "targetsCartAdd t"
    and acc: "accepted ev st"
  shows "requests (run [Submit t, SetChecked boxes', CartUpdate ev, SettleElapsed (length (tasks st))] st) =
           requests st @ [Post ''/cart/add.js'' [Item (Some V1) 1, Item (Some V2) 1]]"
proof -
  define a1 where "a1 = \<lparr>productId = addonProductId d1, variantId = addonVariantId d1, price = addonPrice d1\<rparr>"
  define a2 where "a2 = \<lparr>productId = addonProductId d2, variantId = addonVariantId d2, price = addonPrice d2\<rparr>"
  define s1 where "s1 = (submitListener t st)\<lparr>checkedBoxes := boxes'\<rparr>"
  have got: "getCheckedAddons st = [a1, a2]"
    by (simp add: getCheckedAddons_def readAddon_def boxes a1_def a2_def)
  have s1_eq: "s1 = st\<lparr>pendingAddons := Some [a1, a2], checkedBoxes := boxes'\<rparr>"
    using form by (simp add: s1_def submitListener_def handleFormSubmit_def got)
  have acc1: "accepted ev s1" using acc by (simp add: accepted_def s1_eq split: option.splits)
  have add1: "addonsToAdd s1 = [a1, a2]" by (simp add: addonsToAdd_def s1_eq)
  have tk: "tasks (cartUpdateListener ev s1) = tasks st @ [AwaitSettle [a1, a2]]"
    using acc1 by (simp add: listener_tasks add1) (simp add: s1_eq)
  have rq: "requests (cartUpdateListener ev s1) = requests st"
    by (simp add: listener_fields s1_eq)
  have "resumeAfterSettle (length (tasks st)) (cartUpdateListener ev s1) =
        (cartUpdateListener ev s1)\<lparr>tasks := tasks st @ [AwaitAppend],
           requests := requests (cartUpdateListener ev s1) @
             [Post ''/cart/add.js'' (map (\<lambda>addon. Item (variantId addon) 1) [a1, a2])]\<rparr>"
    using tk by (rule resumeAfterSettle_at)
  then show ?thesis
    by (simp add: s1_def [symmetric] rq a1_def a2_def v1 v2)
qed

theorem two_addons_witness:
  "checkedBoxes (new_ProductAddon [boxV1, boxV2] []) =
     [Checkbox (Some (Container (Some
        \<lparr>addonProductId = Some ''P1'', addonVariantId = Some ''V1'', addonPrice = Some ''9.99''\<rparr>))),
      Checkbox (Some (Container (Some
        \<lparr>addonProductId = Some ''P2'', addonVariantId = Some ''V2'', addonPrice = Some ''4.50''\<rparr>)))]
   \<and> targetsCartAdd cartAddForm
   \<and> accepted (cartEvent ''product-form-component'' ''e1'') (new_ProductAddon [boxV1, boxV2] [])
   \<and> requests
        (run [Submit cartAddForm, SetChecked [], CartUpdate (cartEvent ''product-form-component'' ''e1''),
              SettleElapsed 0]
           (new_ProductAddon [boxV1, boxV2] [])) =
       [Post ''/cart/add.js'' [Item (Some ''V1'') 1, Item (Some ''V2'') 1]]"
proof -
  let ?d1 = "\<lparr>addonProductId = Some ''P1'', addonVariantId = Some ''V1'', addonPrice = Some ''9.99''\<rparr>"
  let ?d2 = "\<lparr>addonProductId = Some ''P2'', addonVariantId = Some ''V2'', addonPrice = Some ''4.50''\<rparr>"
  let ?st = "new_ProductAddon [boxV1, boxV2] []"
  have h1: "checkedBoxes ?st =
              [Checkbox (Some (Container (Some ?d1))), Checkbox (Some (Container (Some ?d2)))]"
    by code_simp
  have h2: "addonVariantId ?d1 = Some ''V1''" by simp
  have h3: "addonVariantId ?d2 = Some ''V2''" by simp
  have h4: "targetsCartAdd cartAddForm" by code_simp
  have h5: "accepted (cartEvent ''product-form-component'' ''e1'') ?st" by code_simp
  have l: "length (tasks ?st) = 0" by code_simp
  have q: "requests ?st = []" by code_simp
  note c = two_addons_append_body [OF h1 h2 h3 h4 h5, of "[]", unfolded l q append_Nil]
  show ?thesis using h1 h4 h5 c by blast
qed

subsection \<open>C5: which checked selectors are dropped\<close>

text \<open>
  Claim C5, as amended. \<open>getCheckedAddons\<close> reports no error and reads the boxes one
  by one, in order. A checked selector is dropped exactly when it has no enclosing
  \<open>.product-addon\<close> element, or that element has no \<open>dataset\<close>. A selector whose
  container is there but lacks the data attributes is kept: its entry has the missing
  fields absent.
\<close>

theorem getCheckedAddons_drops:
  "getCheckedAddons (st\<lparr>checkedBoxes := xs @ [cb] @ ys\<rparr>) =
     getCheckedAddons (st\<lparr>checkedBoxes := xs\<rparr>) @
     (case closest cb of
        None \<Rightarrow> []
      | Some c \<Rightarrow>
          (case dataset c of
             None \<Rightarrow> []
           | Some d \<Rightarrow> [\<lparr>productId = addonProductId d, variantId = addonVariantId d,
                          price = addonPrice d\<rparr>])) @
     getCheckedAddons (st\<lparr>checkedBoxes := ys\<rparr>)"
  by (simp add: getCheckedAddons_def readAddon_def split: option.splits)

theorem getCheckedAddons_drops_witness:
  "getCheckedAddons
     ((new_ProductAddon [] [])\<lparr>checkedBoxes := [boxV1] @ [Checkbox None] @ [boxV2]\<rparr>) =
   [\<lparr>productId = Some ''P1'', variantId = Some ''V1'', price = Some ''9.99''\<rparr>,
    \<lparr>productId = Some ''P2'', variantId = Some ''V2'', price = Some ''4.50''\<rparr>]"
proof -
  have a: "getCheckedAddons ((new_ProductAddon [] [])\<lparr>checkedBoxes := [boxV1]\<rparr>) =
             [\<lparr>productId = Some ''P1'', variantId = Some ''V1'', price = Some ''9.99''\<rparr>]"
    by code_simp
  have b: "getCheckedAddons ((new_ProductAddon [] [])\<lparr>checkedBoxes := [boxV2]\<rparr>) =
             [\<lparr>productId = Some ''P2'', variantId = Some ''V2'', price = Some ''4.50''\<rparr>]"
    by code_simp
  show ?thesis
    using getCheckedAddons_drops [where st = "new_ProductAddon [] []" and xs = "[boxV1]"
            and cb = "Checkbox None" and ys = "[boxV2]"]
    by (simp only: a b checkbox.sel option.case append_Nil append_Cons)
qed

text \<open>A checked selector whose container has none of the three attributes is kept.\<close>

theorem malformed_counterexample:
  "getCheckedAddons
     (new_ProductAddon
        [Checkbox (Some (Container (Some
           \<lparr>addonProductId = None, addonVariantId = None, addonPrice = None\<rparr>)))] []) =
   [\<lparr>productId = None, variantId = None, price = None\<rparr>]"
  by code_simp

subsection \<open>C6: the controller's own events\<close>

text \<open>
  Claim C6. A notification whose data carries the source tag \<open>product-addon\<close> leaves
  the whole state as it is, through the listener and through \<open>handleCartAdd\<close> alike:
  no field of the controller changes, no request is sent, no event is dispatched, no
  timer is set and the document is not written.
\<close>

theorem own_event_no_side_effect:
  assumes "data d = Some dt" and "source dt = Some ''product-addon''"
  shows "cartUpdateListener (Some d) st = st \<and> handleCartAdd (Some d) st = st"
  using assms by (simp add: cartUpdateListener_def isAddToCartEvent_def handleCartAdd_def ownEvent_def)

theorem own_event_witness:
  "data selfDetail = Some \<lparr>source = Some ''product-addon'', didError = False, dataProductId = None\<rparr>
   \<and> cartUpdateListener (Some selfDetail) (run [Submit cartAddForm] (new_ProductAddon [boxV1] [])) =
       run [Submit cartAddForm] (new_ProductAddon [boxV1] [])
   \<and> handleCartAdd (Some selfDetail) (run [Submit cartAddForm] (new_ProductAddon [boxV1] [])) =
       run [Submit cartAddForm] (new_ProductAddon [boxV1] [])"
proof -
  have h1: "data selfDetail = Some \<lparr>source = Some ''product-addon'', didError = False, dataProductId = None\<rparr>"
    by (simp add: selfDetail_def)
  have h2: "source \<lparr>source = Some ''product-addon'', didError = False, dataProductId = None\<rparr> = Some ''product-addon''"
    by simp
  show ?thesis
    using h1 own_event_no_side_effect [OF h1 h2, of "run [Submit cartAddForm] (new_ProductAddon [boxV1] [])"]
    by blast
qed

subsection \<open>C7: the banner of a failed append\<close>

text \<open>
  Claim C7. On a page reached from the constructor, let the append of a suspended
  handling fail: the fetch rejects, or the response is not ok, or its body does not
  parse. Then exactly one banner is appended to the body, with a node that was not
  there before; one timer of 5000 ms is set that removes this node, and when it fires
  the body is what it was before the failure; no request is sent and no task is left,
  so the append is not tried again; the flag is clear.
\<close>

theorem append_failure_shows_one_banner:
  assumes reach: "st = run ins (new_ProductAddon boxes counts)"
    and i: "i < length (tasks st)" and at: "tasks st ! i = AwaitAppend"
    and fail: "case r of NetworkError \<Rightarrow> True | Response k b \<Rightarrow> \<not> k \<or> b = None"
  shows "let st' = resumeAfterAppend i r now st; n = nextNode st
         in bodyChildren st' = bodyChildren st @
              [Banner n ''product-addon-notification product-addon-notification--error''
                 ''Failed to add some add-on products to cart.'']
            \<and> timers st' = timers st @ [(5000, RemoveNotification n)]
            \<and> bodyChildren (fireTimer (length (timers st)) st') = bodyChildren st
            \<and> requests st' = requests st
            \<and> tasks st' = []
            \<and> \<not> isProcessingAddons st'"
proof -
  from fail have isl: "isl (addToCart_settled r)" by (simp add: addToCart_fails)
  from reachable_await_append [OF reach i at] have i0: "i = 0" and ts: "tasks st = [AwaitAppend]" .
  have eq: "resumeAfterAppend i r now st =
         finish i (showErrorMessage ''Failed to add some add-on products to cart.'' st)"
    using i at isl by (rule resumeAfterAppend_failure)
  have fresh: "\<forall>c \<in> set (bodyChildren st). node c < nextNode st"
    unfolding reach by (rule reachable_fresh)
  then have flt: "filter (\<lambda>c. node c \<noteq> nextNode st) (bodyChildren st) = bodyChildren st"
    by (auto simp: filter_id_conv)
  show ?thesis
    unfolding Let_def eq
    using flt by (simp add: finish_def showErrorMessage_def fireTimer_def i0 ts nth_append)
qed

theorem append_failure_witness:
  "0 < length (tasks (run [Submit cartAddForm, CartUpdate (cartEvent ''product-form-component'' ''e1''), SettleElapsed 0]
                         (new_ProductAddon [boxV1] [])))
   \<and> tasks (run [Submit cartAddForm, CartUpdate (cartEvent ''product-form-component'' ''e1''), SettleElapsed 0]
               (new_ProductAddon [boxV1] [])) ! 0 = AwaitAppend
   \<and> bodyChildren
        (run [Submit cartAddForm, CartUpdate (cartEvent ''product-form-component'' ''e1''), SettleElapsed 0,
              AppendSettled 0 failedResponse 1700000000000]
           (new_ProductAddon [boxV1] [])) =
       [Banner 0 ''product-addon-notification product-addon-notification--error''
          ''Failed to add some add-on products to cart.'']
   \<and> timers
        (run [Submit cartAddForm, CartUpdate (cartEvent ''product-form-component'' ''e1''), SettleElapsed 0,
              AppendSettled 0 failedResponse 1700000000000]
           (new_ProductAddon [boxV1] [])) = [(5000, RemoveNotification 0)]
   \<and> bodyChildren
        (run [Submit cartAddForm, CartUpdate (cartEvent ''product-form-component'' ''e1''), SettleElapsed 0,
              AppendSettled 0 failedResponse 1700000000000, TimerFired 0]
           (new_ProductAddon [boxV1] [])) = []
   \<and> requests
        (run [Submit cartAddForm, CartUpdate (cartEvent ''product-form-component'' ''e1''), SettleElapsed 0,
              AppendSettled 0 failedResponse 1700000000000]
           (new_ProductAddon [boxV1] [])) = [Post ''/cart/add.js'' [Item (Some ''V1'') 1]]"
proof -
  let ?ins = "[Submit cartAddForm, CartUpdate (cartEvent ''product-form-component'' ''e1''), SettleElapsed 0]"
  let ?st = "run ?ins (new_ProductAddon [boxV1] [])"
  have h1: "0 < length (tasks ?st)" by code_simp
  have h2: "tasks ?st ! 0 = AwaitAppend" by code_simp
  have h3: "case failedResponse of NetworkError \<Rightarrow> True | Response k b \<Rightarrow> \<not> k \<or> b = None"
    by code_simp
  have b: "bodyChildren ?st = []" by code_simp
  have n: "nextNode ?st = 0" by code_simp
  have t: "timers ?st = []" by code_simp
  have q: "requests ?st = [Post ''/cart/add.js'' [Item (Some ''V1'') 1]]" by code_simp
  note c = append_failure_shows_one_banner [OF refl h1 h2 h3, of 1700000000000,
             unfolded Let_def b n t q append_Nil list.size]
  from c have c1: "bodyChildren (resumeAfterAppend 0 failedResponse 1700000000000 ?st) =
       [Banner 0 ''product-addon-notification product-addon-notification--error''
          ''Failed to add some add-on products to cart.'']" by blast
  from c have c2: "timers (resumeAfterAppend 0 failedResponse 1700000000000 ?st) = [(5000, RemoveNotification 0)]"
    by blast
  from c have c3: "bodyChildren (fireTimer 0 (resumeAfterAppend 0 failedResponse 1700000000000 ?st)) = []"
    by blast
  from c have c4: "requests (resumeAfterAppend 0 failedResponse 1700000000000 ?st) =
                     [Post ''/cart/add.js'' [Item (Some ''V1'') 1]]" by blast
  show ?thesis using h1 h2 c1 c2 c3 c4 by (simp only: run.simps step.simps simp_thms)
qed

subsection \<open>C8: the pending set after a failed append\<close>

text \<open>
  Claim C8. On a page reached from the constructor, let the append of a suspended
  handling fail. The pending field is what it was before. When a set \<open>p\<close> was
  pending, the next notification that passes the filter and carries a fresh identifier
  (or none) resolves \<open>p\<close> again, whatever the boxes are by then: its task holds \<open>p\<close>
  and its append request carries the items of \<open>p\<close>. The only input that takes the
  pending set from present to absent is the result of an append that succeeded.
\<close>

theorem failed_append_keeps_pending:
  assumes reach: "st = run ins (new_ProductAddon boxes counts)"
    and i: "i < length (tasks st)" and at: "tasks st ! i = AwaitAppend"
    and fail: "isl (addToCart_settled r)"
    and ev: "isAddToCartEvent ev"
    and new: "case eventKey ev of None \<Rightarrow> True | Some e \<Rightarrow> e \<notin> processedEventIds st"
  shows "let st' = resumeAfterAppend i r now st
         in pendingAddons st' = pendingAddons st
            \<and> (case pendingAddons st of
                  None \<Rightarrow> True
                | Some p \<Rightarrow>
                    tasks (cartUpdateListener ev (st'\<lparr>checkedBoxes := boxes'\<rparr>)) = [AwaitSettle p]
                    \<and> requests (run [SetChecked boxes', CartUpdate ev, SettleElapsed 0] st') =
                        requests st @
                        [Post ''/cart/add.js'' (map (\<lambda>addon. Item (variantId addon) 1) p)])
            \<and> (\<forall>x s. pendingAddons s \<noteq> None \<and> pendingAddons (step x s) = None \<longrightarrow>
                 (\<exists>j r' now'. x = AppendSettled j r' now' \<and> \<not> isl (addToCart_settled r')))"
proof -
  define st' where "st' = resumeAfterAppend i r now st"
  define st'' where "st'' = st'\<lparr>checkedBoxes := boxes'\<rparr>"
  from reachable_await_append [OF reach i at] have i0: "i = 0" and ts: "tasks st = [AwaitAppend]" .
  have eq: "st' = finish i (showErrorMessage ''Failed to add some add-on products to cart.'' st)"
    unfolding st'_def using i at fail by (rule resumeAfterAppend_failure)
  have p': "pendingAddons st' = pendingAddons st" and t': "tasks st' = []"
    and r': "requests st' = requests st"
    by (simp_all add: eq finish_fields showErrorMessage_fields ts i0)
  have "\<not> isProcessingAddons st'" and "processedEventIds st' = processedEventIds st"
    by (simp_all add: eq finish_fields showErrorMessage_fields)
  then have acc'': "accepted ev st''"
    using ev new by (simp add: accepted_def st''_def split: option.splits)
  have again: "tasks (cartUpdateListener ev st'') = [AwaitSettle p]
        \<and> requests (run [SetChecked boxes', CartUpdate ev, SettleElapsed 0] st') =
            requests st @ [Post ''/cart/add.js'' (map (\<lambda>addon. Item (variantId addon) 1) p)]"
    if pend: "pendingAddons st = Some p" for p
  proof -
    have "pendingAddons st \<noteq> Some []"
      unfolding reach using run_pending_ok [of "new_ProductAddon boxes counts" ins]
      by (simp add: new_ProductAddon_def)
    with pend have pne: "p \<noteq> []" by auto
    have add'': "addonsToAdd st'' = p" by (simp add: addonsToAdd_def st''_def p' pend)
    have tk: "tasks (cartUpdateListener ev st'') = [AwaitSettle p]"
      using acc'' pne by (simp add: listener_tasks add'') (simp add: st''_def t')
    have rq: "requests (cartUpdateListener ev st'') = requests st"
      by (simp add: listener_fields st''_def r')
    have "resumeAfterSettle (length ([]::task list)) (cartUpdateListener ev st'') =
          (cartUpdateListener ev st'')\<lparr>tasks := [] @ [AwaitAppend],
             requests := requests (cartUpdateListener ev st'') @
               [Post ''/cart/add.js'' (map (\<lambda>addon. Item (variantId addon) 1) p)]\<rparr>"
      by (rule resumeAfterSettle_at) (simp add: tk)
    then have "requests (run [SetChecked boxes', CartUpdate ev, SettleElapsed 0] st') =
                 requests st @ [Post ''/cart/add.js'' (map (\<lambda>addon. Item (variantId addon) 1) p)]"
      by (simp add: st''_def [symmetric] rq)
    with tk show ?thesis by simp
  qed
  have only: "\<forall>x s. pendingAddons s \<noteq> None \<and> pendingAddons (step x s) = None \<longrightarrow>
                 (\<exists>j r' now'. x = AppendSettled j r' now' \<and> \<not> isl (addToCart_settled r'))"
    using cleared_only_on_success by blast
  have mid: "case pendingAddons st of
                  None \<Rightarrow> True
                | Some p \<Rightarrow>
                    tasks (cartUpdateListener ev st'') = [AwaitSettle p]
                    \<and> requests (run [SetChecked boxes', CartUpdate ev, SettleElapsed 0] st') =
                        requests st @
                        [Post ''/cart/add.js'' (map (\<lambda>addon. Item (variantId addon) 1) p)]"
    using again by (simp split: option.splits)
  show ?thesis
    using p' mid only unfolding Let_def st'_def st''_def by blast
qed

theorem failed_append_witness:
  "0 < length (tasks (run [Submit cartAddForm, CartUpdate (cartEvent ''product-form-component'' ''e1''), SettleElapsed 0]
                         (new_ProductAddon [boxV1] [])))
   \<and> tasks (run [Submit cartAddForm, CartUpdate (cartEvent ''product-form-component'' ''e1''), SettleElapsed 0]
               (new_ProductAddon [boxV1] [])) ! 0 = AwaitAppend
   \<and> isl (addToCart_settled NetworkError)
   \<and> isAddToCartEvent (cartEvent ''product-form-component'' ''e2'')
   \<and> pendingAddons
        (run [Submit cartAddForm, CartUpdate (cartEvent ''product-form-component'' ''e1''), SettleElapsed 0,
              AppendSettled 0 NetworkError 1700000000000]
           (new_ProductAddon [boxV1] [])) =
       Some [\<lparr>productId = Some ''P1'', variantId = Some ''V1'', price = Some ''9.99''\<rparr>]
   \<and> requests
        (run [Submit cartAddForm, CartUpdate (cartEvent ''product-form-component'' ''e1''), SettleElapsed 0,
              AppendSettled 0 NetworkError 1700000000000,
              SetChecked [], CartUpdate (cartEvent ''product-form-component'' ''e2''), SettleElapsed 0]
           (new_ProductAddon [boxV1] [])) =
       [Post ''/cart/add.js'' [Item (Some ''V1'') 1], Post ''/cart/add.js'' [Item (Some ''V1'') 1]]"
proof -
  let ?ins = "[Submit cartAddForm, CartUpdate (cartEvent ''product-form-component'' ''e1''), SettleElapsed 0]"
  let ?st = "run ?ins (new_ProductAddon [boxV1] [])"
  let ?p = "[\<lparr>productId = Some ''P1'', variantId = Some ''V1'', price = Some ''9.99''\<rparr>]"
  have h1: "0 < length (tasks ?st)" by code_simp
  have h2: "tasks ?st ! 0 = AwaitAppend" by code_simp
  have h3: "isl (addToCart_settled NetworkError)" by code_simp
  have h4: "pendingAddons ?st = Some ?p" by code_simp
  have h5: "isAddToCartEvent (cartEvent ''product-form-component'' ''e2'')" by code_simp
  have h6: "case eventKey (cartEvent ''product-form-component'' ''e2'') of None \<Rightarrow> True
            | Some e \<Rightarrow> e \<notin> processedEventIds ?st" by code_simp
  have q: "requests ?st = [Post ''/cart/add.js'' [Item (Some ''V1'') 1]]" by code_simp
  have m: "map (\<lambda>addon. Item (variantId addon) 1) ?p = [Item (Some ''V1'') 1]" by simp
  note c = failed_append_keeps_pending [OF refl h1 h2 h3 h5 h6, of 1700000000000 "[]",
             unfolded Let_def h4 option.case q m append_Cons append_Nil]
  from c have c1: "pendingAddons (resumeAfterAppend 0 NetworkError 1700000000000 ?st) = Some ?p" by blast
  from c have c2: "requests (run [SetChecked [], CartUpdate (cartEvent ''product-form-component'' ''e2''), SettleElapsed 0]
                      (resumeAfterAppend 0 NetworkError 1700000000000 ?st)) =
       [Post ''/cart/add.js'' [Item (Some ''V1'') 1], Post ''/cart/add.js'' [Item (Some ''V1'') 1]]" by blast
  show ?thesis using h1 h2 h3 h5 c1 c2 by (simp only: run.simps step.simps simp_thms)
qed

subsection \<open>C9: an identifier is consumed even when nothing is appended\<close>

text \<open>
  Claim C9, as amended. When a notification with identifier \<open>e\<close> passes the filter
  while the flag is clear and the resolved add-on set is empty, \<open>e\<close> is recorded and
  the handling sends nothing and suspends nothing. After any further inputs, as long
  as none of them fires the timer that empties the processed identifiers, a
  notification carrying \<open>e\<close> changes nothing, so it performs no append, whatever has
  been checked or submitted in between.
\<close>

theorem consumed_identifier_blocks_until_pruned:
  assumes ev: "isAddToCartEvent ev" and idle: "\<not> isProcessingAddons st"
    and key: "eventKey ev = Some e" and none: "addonsToAdd st = []"
    and later: "noPrune xs (cartUpdateListener ev st)"
    and key2: "eventKey ev2 = Some e"
  shows "e \<in> processedEventIds (cartUpdateListener ev st)
         \<and> tasks (cartUpdateListener ev st) = tasks st
         \<and> requests (cartUpdateListener ev st) = requests st
         \<and> cartUpdateListener ev2 (run xs (cartUpdateListener ev st)) = run xs (cartUpdateListener ev st)"
proof -
  have rec: "e \<in> processedEventIds (cartUpdateListener ev st)"
  proof (cases "e \<in> processedEventIds st")
    case True
    then show ?thesis using key by (simp add: duplicate_rejected)
  next
    case False
    then have "accepted ev st" using ev idle key by (simp add: accepted_def)
    then show ?thesis using key by (simp add: listener_ids)
  qed
  have "e \<in> processedEventIds (run xs (cartUpdateListener ev st))"
    using later rec by (rule run_keeps_id)
  with key2 have "cartUpdateListener ev2 (run xs (cartUpdateListener ev st)) = run xs (cartUpdateListener ev st)"
    by (rule duplicate_rejected)
  then show ?thesis using rec none by (simp add: listener_tasks listener_fields)
qed

theorem consumed_identifier_witness:
  "isAddToCartEvent (cartEvent ''product-form-component'' ''e1'')
   \<and> \<not> isProcessingAddons (new_ProductAddon [] [])
   \<and> eventKey (cartEvent ''product-form-component'' ''e1'') = Some ''e1''
   \<and> addonsToAdd (new_ProductAddon [] []) = []
   \<and> noPrune [SetChecked [boxV1], Submit cartAddForm]
        (cartUpdateListener (cartEvent ''product-form-component'' ''e1'') (new_ProductAddon [] []))
   \<and> ''e1'' \<in> processedEventIds
        (cartUpdateListener (cartEvent ''product-form-component'' ''e1'') (new_ProductAddon [] []))
   \<and> cartUpdateListener (cartEvent ''product-form-component'' ''e1'')
        (run [CartUpdate (cartEvent ''product-form-component'' ''e1''), SetChecked [boxV1], Submit cartAddForm]
           (new_ProductAddon [] [])) =
       run [CartUpdate (cartEvent ''product-form-component'' ''e1''), SetChecked [boxV1], Submit cartAddForm]
         (new_ProductAddon [] [])"
proof -
  let ?ev = "cartEvent ''product-form-component'' ''e1''"
  let ?st = "new_ProductAddon [] []"
  let ?xs = "[SetChecked [boxV1], Submit cartAddForm]"
  have h1: "isAddToCartEvent ?ev" by code_simp
  have h2: "\<not> isProcessingAddons ?st" by code_simp
  have h3: "eventKey ?ev = Some ''e1''" by code_simp
  have h4: "addonsToAdd ?st = []" by code_simp
  have h5: "noPrune ?xs (cartUpdateListener ?ev ?st)" by simp
  note c = consumed_identifier_blocks_until_pruned [OF h1 h2 h3 h4 h5 h3]
  from c have c1: "''e1'' \<in> processedEventIds (cartUpdateListener ?ev ?st)" by blast
  from c have c2: "cartUpdateListener ?ev (run ?xs (cartUpdateListener ?ev ?st)) =
                     run ?xs (cartUpdateListener ?ev ?st)" by blast
  have e: "run (CartUpdate ?ev # ?xs) ?st = run ?xs (cartUpdateListener ?ev ?st)" by simp
  show ?thesis using h1 h2 h3 h4 h5 c1 c2 unfolding e by blast
qed

text \<open>
  Once the pruning timer of another, successful handling has fired, a notification
  with the consumed identifier is accepted and its add-on is appended.
\<close>

theorem pruned_identifier_counterexample:
  "''e1'' \<in> processedEventIds
      (run [CartUpdate (cartEvent ''product-form-component'' ''e1'')] (new_ProductAddon [] []))
   \<and> requests
      (run [CartUpdate (cartEvent ''product-form-component'' ''e1'')] (new_ProductAddon [] [])) = []
   \<and> requests
      (run [CartUpdate (cartEvent ''product-form-component'' ''e1''),
            SetChecked [boxV1],
            CartUpdate (cartEvent ''product-form-component'' ''e2''),
            SettleElapsed 0,
            AppendSettled 0 cartResponse 1700000000000,
            CartSettled 0 cartResponse,
            TimerFired 0,
            CartUpdate (cartEvent ''product-form-component'' ''e1''),
            SettleElapsed 0]
         (new_ProductAddon [] [])) =
     [Post ''/cart/add.js'' [Item (Some ''V1'') 1], Get ''/cart.js'',
      Post ''/cart/add.js'' [Item (Some ''V1'') 1]]"
  by code_simp

subsection \<open>C10: the pending set is never the empty sequence\<close>

text \<open>
  Claim C10. In every state the page reaches from the constructor the pending set is
  absent or non-empty, and every input preserves this. A submission changes the
  pending set only when at least one selector is checked, and then to the selections
  read; the result of a successful append sets it to absent.
\<close>

theorem pendingAddons_never_empty:
  "pendingAddons (run xs (new_ProductAddon boxes counts)) \<noteq> Some []
   \<and> (\<forall>x st. pendingAddons st \<noteq> Some [] \<longrightarrow> pendingAddons (step x st) \<noteq> Some [])
   \<and> (\<forall>t st. pendingAddons (submitListener t st) \<noteq> pendingAddons st \<longrightarrow>
         getCheckedAddons st \<noteq> [] \<and> pendingAddons (submitListener t st) = Some (getCheckedAddons st))
   \<and> (\<forall>i r now st. i < length (tasks st) \<and> tasks st ! i = AwaitAppend \<and> \<not> isl (addToCart_settled r) \<longrightarrow>
         pendingAddons (resumeAfterAppend i r now st) = None)"
proof (intro conjI allI impI)
  show "pendingAddons (run xs (new_ProductAddon boxes counts)) \<noteq> Some []"
    by (rule run_pending_ok) (simp add: new_ProductAddon_def)
next
  fix x and st :: state assume "pendingAddons st \<noteq> Some []"
  then show "pendingAddons (step x st) \<noteq> Some []" by (rule step_pending_ok)
next
  fix t and st :: state assume "pendingAddons (submitListener t st) \<noteq> pendingAddons st"
  then show "getCheckedAddons st \<noteq> []"
    by (auto simp: submitListener_def handleFormSubmit_def Let_def split: if_splits)
next
  fix t and st :: state assume "pendingAddons (submitListener t st) \<noteq> pendingAddons st"
  then show "pendingAddons (submitListener t st) = Some (getCheckedAddons st)"
    by (auto simp: submitListener_def handleFormSubmit_def Let_def split: if_splits)
next
  fix i r now and st :: state
  assume "i < length (tasks st) \<and> tasks st ! i = AwaitAppend \<and> \<not> isl (addToCart_settled r)"
  then show "pendingAddons (resumeAfterAppend i r now st) = None"
    by (simp add: resumeAfterAppend_success finish_fields)
qed

theorem pendingAddons_never_empty_witness:
  "pendingAddons (run [Submit cartAddForm, SetChecked [], Submit cartAddForm] (new_ProductAddon [boxV1] []))
     \<noteq> Some []
   \<and> pendingAddons (new_ProductAddon [] []) \<noteq> Some []
   \<and> pendingAddons (step (Submit cartAddForm) (new_ProductAddon [] [])) \<noteq> Some []"
proof -
  have h: "pendingAddons (new_ProductAddon [] []) \<noteq> Some []" by code_simp
  note c = pendingAddons_never_empty
             [of "[Submit cartAddForm, SetChecked [], Submit cartAddForm]" "[boxV1]" "[]"]
  from c have c1: "pendingAddons (run [Submit cartAddForm, SetChecked [], Submit cartAddForm]
                     (new_ProductAddon [boxV1] [])) \<noteq> Some []" by blast
  from c h have c2: "pendingAddons (step (Submit cartAddForm) (new_ProductAddon [] [])) \<noteq> Some []"
    by blast
  show ?thesis using h c1 c2 by blast
qed

end
